theory Spec2Isabelle
  imports Main
begin

section \<open>The safe update and delete plugin\<close>

text \<open>
  A shallow embedding of \<^verbatim>\<open>src/safe-update-and-delete-plugin.ts\<close>.  The plugin is
  two hooks for one version column: \<^verbatim>\<open>AddTimestampFieldPlugin\<close> adds a required field
  to the update and delete input types of a table, and the resolver wrapper of
  \<^verbatim>\<open>makeVerifyTimestampPlugin\<close> runs a locked verification query before it calls the
  wrapped resolver.

  What the host (graphile-build, graphile-build-pg, pg) provides is a parameter: the
  functions of the \<^verbatim>\<open>build\<close> object, \<^verbatim>\<open>fieldWithHooks\<close>, the database client and
  the wrapped resolver.  Two host mechanisms are written out as far as the plugin relies
  on them: pg-sql2's queries as lists of nodes, and the way graphile-utils'
  \<^verbatim>\<open>makeWrapResolversPlugin\<close> installs a wrapper.  An exception is a value \<open>Inl e\<close>;
  what a call does to the outside (a query sent, the wrapped resolver called) is logged
  as a list of events, in order.
\<close>

subsection \<open>Values and errors\<close>

text \<open>JavaScript values as far as the plugin handles them: the values of the
  mutation input and of a decoded node identifier.\<close>

datatype jsval = JUndefined | JNull | JBool bool | JNum int | JStr string

text \<open>\<open>Error msg\<close> is \<^verbatim>\<open>throw new Error(msg)\<close>, also when a host function or the
  database raises.  \<open>TypeError p\<close> is the error the JavaScript engine raises when
  property \<open>p\<close> is read from \<^verbatim>\<open>undefined\<close>.\<close>

datatype error = Error string | TypeError string

definition bindE :: "error + 'a \<Rightarrow> ('a \<Rightarrow> error + 'b) \<Rightarrow> error + 'b" where
  "bindE m f = (case m of Inl e \<Rightarrow> Inl e | Inr x \<Rightarrow> f x)"

text \<open>\<^verbatim>\<open>Array.prototype.map\<close> with a callback that may throw: the first exception,
  in index order, ends the loop.\<close>

fun mapE :: "('a \<Rightarrow> error + 'b) \<Rightarrow> 'a list \<Rightarrow> error + 'b list" where
  "mapE f [] = Inr []"
| "mapE f (x # xs) =
     (case f x of
        Inl e \<Rightarrow> Inl e
      | Inr y \<Rightarrow> (case mapE f xs of Inl e \<Rightarrow> Inl e | Inr ys \<Rightarrow> Inr (y # ys)))"

text \<open>\<^verbatim>\<open>input[k]\<close>: a missing property reads as \<^verbatim>\<open>undefined\<close>.\<close>

definition js_get :: "(string \<rightharpoonup> jsval) \<Rightarrow> string \<Rightarrow> jsval" where
  "js_get obj k = (case obj k of None \<Rightarrow> JUndefined | Some v \<Rightarrow> v)"

subsection \<open>SQL fragments (pg-sql2)\<close>

text \<open>
  A pg-sql2 query is an array of nodes: raw text, an escaped identifier (one or more
  names, joined with a dot), or a value sent as a parameter.  The tagged templates
  \<^verbatim>\<open>sql.fragment\<close> and \<^verbatim>\<open>sql.query\<close> interleave the template's strings with the
  embedded fragments, skip empty strings and flatten embedded arrays;
  \<^verbatim>\<open>sql.join(items, sep)\<close> puts the raw separator between the items.
\<close>

datatype sql_node = Raw string | Identifier "string list" | Value jsval

type_synonym sql_query = "sql_node list"

definition sql_raw :: "string \<Rightarrow> sql_query" where
  "sql_raw txt = (if txt = [] then [] else [Raw txt])"

fun sql_template :: "string list \<Rightarrow> sql_query list \<Rightarrow> sql_query" where
  "sql_template [] vs = []"
| "sql_template (s # ss) [] = sql_raw s @ sql_template ss []"
| "sql_template (s # ss) (v # vs) = sql_raw s @ v @ sql_template ss vs"

fun sql_join :: "sql_query list \<Rightarrow> string \<Rightarrow> sql_query" where
  "sql_join [] sep = []"
| "sql_join [x] sep = x"
| "sql_join (x # y # r) sep = x @ sql_raw sep @ sql_join (y # r) sep"

definition sql_identifier :: "string list \<Rightarrow> sql_query" where
  "sql_identifier names = [Identifier names]"

text \<open>The result of \<^verbatim>\<open>sql.compile\<close>, what \<^verbatim>\<open>pgClient.query\<close> receives.\<close>

record query_config =
  q_text :: string
  q_values :: "jsval list"

subsection \<open>Table descriptors, scope and build\<close>

record pg_attribute =
  a_name :: string
  a_type :: string
  a_typeModifier :: "int option"

record pg_constraint =
  keyAttributes :: "pg_attribute list"

text \<open>A smart tag is \<^verbatim>\<open>true\<close>, a string or an array of strings.\<close>

datatype tag_value = TagTrue | TagString string | TagList "string list"

text \<open>\<open>namespace_name\<close> is \<^verbatim>\<open>table.namespace.name\<close>, \<open>type_id\<close> is
  \<^verbatim>\<open>table.type.id\<close>.\<close>

record pg_class =
  class_name :: string
  namespace_name :: string
  type_id :: string
  attributes :: "pg_attribute list"
  primaryKeyConstraint :: "pg_constraint option"
  tags :: "string \<rightharpoonup> tag_value"

text \<open>GraphQL types are compared by identity in the source; a schema has one type
  object per name.  \<^verbatim>\<open>new GraphQLNonNull(T)\<close> wraps what the lookup returned.\<close>

datatype gql_type = NamedType string | GraphQLNonNull "gql_type option"

text \<open>The scope of a hook call.  A property the host did not set reads as
  \<^verbatim>\<open>undefined\<close>: \<open>None\<close> for an object, \<open>False\<close> for a flag.\<close>

record scope =
  pgIntrospection :: "pg_class option"
  pgFieldIntrospection :: "pg_class option"
  pgFieldConstraint :: "pg_constraint option"
  isPgUpdateInputType :: bool
  isPgDeleteInputType :: bool
  isPgNodeMutation :: bool
  isRootMutation :: bool
  isPgUpdateMutationField :: bool
  isPgDeleteMutationField :: bool

text \<open>The functions of \<^verbatim>\<open>build\<close> the plugin calls.  \<open>inflection_column\<close> is
  \<^verbatim>\<open>build.inflection.column\<close>, \<open>pgSql_compile\<close> is \<^verbatim>\<open>build.pgSql.compile\<close>;
  \<open>'f\<close> is the host's type of a field configuration.\<close>

record 'f build =
  gql2pg :: "jsval \<Rightarrow> string \<Rightarrow> int option \<Rightarrow> error + sql_query"
  inflection_column :: "pg_attribute \<Rightarrow> string"
  nodeIdFieldName :: string
  pgGetGqlTypeByTypeIdAndModifier :: "string \<Rightarrow> int option \<Rightarrow> gql_type option"
  getTypeAndIdentifiersFromNodeId :: "jsval \<Rightarrow> error + (gql_type option \<times> jsval list)"
  getTypeByName :: "string \<Rightarrow> gql_type option"
  build_extend :: "(string \<times> 'f) list \<Rightarrow> (string \<times> 'f) list \<Rightarrow> error + (string \<times> 'f) list"
  pgSql_compile :: "sql_query \<Rightarrow> query_config"

subsection \<open>Opting out\<close>

text \<open>\<^verbatim>\<open>!!v\<close> for a tag value: a missing tag and the empty string are falsy.\<close>

fun tag_truthy :: "tag_value option \<Rightarrow> bool" where
  "tag_truthy None = False"
| "tag_truthy (Some TagTrue) = True"
| "tag_truthy (Some (TagString s)) = (s \<noteq> [])"
| "tag_truthy (Some (TagList l)) = True"

definition omit :: "scope \<Rightarrow> error + bool" where
  "omit scope =
     (case (case pgFieldIntrospection scope of
              Some t \<Rightarrow> Some t
            | None \<Rightarrow> pgIntrospection scope) of
        None \<Rightarrow> Inl (TypeError ''tags'')
      | Some table \<Rightarrow> Inr (tag_truthy (tags table ''disableSafeUpdateAndDelete'')))"

subsection \<open>Adding the timestamp field\<close>

datatype mode = Update | Delete

fun mode_name :: "mode \<Rightarrow> string" where
  "mode_name Update = ''update''"
| "mode_name Delete = ''delete''"

text \<open>What the callback given to \<^verbatim>\<open>fieldWithHooks\<close> returns.\<close>

record field_spec =
  field_type :: gql_type
  description :: string

definition timestampFieldSpec :: "'f build \<Rightarrow> string \<Rightarrow> mode \<Rightarrow> field_spec" where
  "timestampFieldSpec build timestampField m =
     \<lparr>field_type = GraphQLNonNull (getTypeByName build ''Datetime''),
      description = ''The '' @ [CHR 0x22] @ timestampField @ [CHR 0x22]
        @ '' value of the existing row to be '' @ mode_name m @ ''d''\<rparr>"

text \<open>The hook on \<^verbatim>\<open>GraphQLInputObjectType:fields\<close>; \<open>oldFields\<close> is its parameter
  \<^verbatim>\<open>fields\<close>.  The attribute list is read from \<^verbatim>\<open>scope.pgIntrospection\<close> before
  anything else.\<close>

definition AddTimestampFieldPlugin ::
  "string \<Rightarrow> (string \<times> 'f) list \<Rightarrow> 'f build \<Rightarrow> (string \<Rightarrow> field_spec \<Rightarrow> 'f) \<Rightarrow> scope
     \<Rightarrow> error + (string \<times> 'f) list" where
  "AddTimestampFieldPlugin timestampColumn oldFields build fieldWithHooks scope =
     (case pgIntrospection scope of
        None \<Rightarrow> Inl (TypeError ''attributes'')
      | Some introspection \<Rightarrow>
          (case (if isPgUpdateInputType scope then Some Update
                 else if isPgDeleteInputType scope then Some Delete
                 else None) of
             None \<Rightarrow> Inr oldFields
           | Some m \<Rightarrow>
               bindE (omit scope) (\<lambda>omitted.
                 if omitted then Inr oldFields
                 else (case find (\<lambda>a. a_name a = timestampColumn) (attributes introspection) of
                         None \<Rightarrow> Inr oldFields
                       | Some timestampAttribute \<Rightarrow>
                           (let timestampField = inflection_column build timestampAttribute
                            in build_extend build oldFields
                                 [(timestampField,
                                   fieldWithHooks timestampField
                                     (timestampFieldSpec build timestampField m))])))))"

subsection \<open>The row-locating condition\<close>

text \<open>\<^verbatim>\<open>`${sql.identifier(key.name)} = ${value}`\<close>\<close>

definition key_equals :: "pg_attribute \<Rightarrow> sql_query \<Rightarrow> sql_query" where
  "key_equals key v = sql_template ['''', '' = '', ''''] [sql_identifier [a_name key], v]"

text \<open>\<^verbatim>\<open>`(${sql.join(items, ") and (")})`\<close>\<close>

definition conjunction :: "sql_query list \<Rightarrow> sql_query" where
  "conjunction items = sql_template [''('', '')''] [sql_join items '') and ('']"

definition getMutationCondition ::
  "scope \<Rightarrow> 'f build \<Rightarrow> (string \<rightharpoonup> jsval) \<Rightarrow> error + sql_query" where
  "getMutationCondition scope build input =
     (case pgFieldConstraint scope of
        None \<Rightarrow> Inl (TypeError ''keyAttributes'')
      | Some constraint \<Rightarrow>
          bindE (mapE (\<lambda>key.
                   bindE (gql2pg build (js_get input (inflection_column build key))
                            (a_type key) (a_typeModifier key))
                     (\<lambda>v. Inr (key_equals key v)))
                 (keyAttributes constraint))
            (\<lambda>items. Inr (conjunction items)))"

definition getNodeMutationCondition ::
  "scope \<Rightarrow> 'f build \<Rightarrow> (string \<rightharpoonup> jsval) \<Rightarrow> error + sql_query" where
  "getNodeMutationCondition scope build input =
     (case pgFieldIntrospection scope of
        None \<Rightarrow> Inl (TypeError ''primaryKeyConstraint'')
      | Some table \<Rightarrow>
          (let primaryKeys = map_option keyAttributes (primaryKeyConstraint table);
               nodeId = js_get input (nodeIdFieldName build);
               TableType = pgGetGqlTypeByTypeIdAndModifier build (type_id table) None
           in bindE (getTypeAndIdentifiersFromNodeId build nodeId) (\<lambda>(Type, identifiers).
                if Type \<noteq> TableType then Inl (Error ''Mismatched type'')
                else (case primaryKeys of
                        None \<Rightarrow> Inl (TypeError ''length'')
                      | Some pks \<Rightarrow>
                          if length identifiers \<noteq> length pks then Inl (Error ''Invalid ID'')
                          else bindE (mapE (\<lambda>(key, idx).
                                        bindE (gql2pg build (identifiers ! idx)
                                                 (a_type key) (a_typeModifier key))
                                          (\<lambda>v. Inr (key_equals key v)))
                                      (zip pks [0 ..< length pks]))
                                 (\<lambda>items. Inr (conjunction items))))))"

subsection \<open>The verification query\<close>

text \<open>The strings of the \<^verbatim>\<open>sql.query\<close> template of
  \<^verbatim>\<open>getVerifyTimestampSqlQuery\<close>; the backslash before the first line break is a line
  continuation.\<close>

definition verify_template :: "string list" where
  "verify_template =
     [''  select '',
      '' between ('',
      '' - '5 microsecond'::interval)\<newline>    and ('',
      '' + '5 microsecond'::interval) as ok\<newline>    from '',
      ''\<newline>  where '',
      ''\<newline>  for update'']"

definition getVerifyTimestampSqlQuery ::
  "scope \<Rightarrow> 'f build \<Rightarrow> (string \<rightharpoonup> jsval) \<Rightarrow> pg_attribute \<Rightarrow> error + sql_query" where
  "getVerifyTimestampSqlQuery scope build input timestampAttribute =
     bindE (if isPgNodeMutation scope then getNodeMutationCondition scope build input
            else getMutationCondition scope build input) (\<lambda>condition.
     bindE (gql2pg build (js_get input (inflection_column build timestampAttribute))
              (a_type timestampAttribute) (a_typeModifier timestampAttribute)) (\<lambda>lmValue.
     (let sqlColumn = sql_identifier [a_name timestampAttribute]
      in (case pgFieldIntrospection scope of
            None \<Rightarrow> Inl (TypeError ''namespace'')
          | Some table \<Rightarrow>
              Inr (sql_template verify_template
                     [lmValue, sqlColumn, sqlColumn,
                      sql_identifier [namespace_name table, class_name table],
                      condition])))))"

subsection \<open>Verifying, and wrapping the resolver\<close>

text \<open>A row of the verification query's result: its column \<^verbatim>\<open>ok\<close> is a boolean or
  SQL's null, which the driver returns as \<^verbatim>\<open>null\<close>.\<close>

record row =
  ok :: "bool option"

definition truthy :: "bool option \<Rightarrow> bool" where
  "truthy v = (v = Some True)"

text \<open>The database client of the call's context.\<close>

record pg_client =
  client_query :: "query_config \<Rightarrow> error + row list"

record resolve_context =
  pgClient :: pg_client

record resolve_args =
  args_input :: "string \<rightharpoonup> jsval"

text \<open>The four parameters of a GraphQL resolver; \<open>'v\<close> is the host's type of the
  parent value and of the resolve info.\<close>

record 'v resolve_params =
  rp_parent :: 'v
  rp_args :: resolve_args
  rp_context :: resolve_context
  rp_info :: 'v

datatype 'v event = QueryIssued query_config | ResolverInvoked "'v resolve_params"

type_synonym ('v, 'a) io = "'v event list \<times> (error + 'a)"

definition bindIO :: "('v, 'a) io \<Rightarrow> ('a \<Rightarrow> ('v, 'b) io) \<Rightarrow> ('v, 'b) io" where
  "bindIO m f =
     (case snd m of
        Inl e \<Rightarrow> (fst m, Inl e)
      | Inr x \<Rightarrow> (fst m @ fst (f x), snd (f x)))"

definition verifyTimestamp ::
  "scope \<Rightarrow> 'f build \<Rightarrow> (string \<rightharpoonup> jsval) \<Rightarrow> pg_client \<Rightarrow> pg_attribute \<Rightarrow> ('v, unit) io" where
  "verifyTimestamp scope build input client timestampAttribute =
     (case getVerifyTimestampSqlQuery scope build input timestampAttribute of
        Inl e \<Rightarrow> ([], Inl e)
      | Inr sqlCheckQuery \<Rightarrow>
          (let sqlString = pgSql_compile build sqlCheckQuery
           in (case client_query client sqlString of
                 Inl e \<Rightarrow> ([QueryIssued sqlString], Inl e)
               | Inr rows \<Rightarrow>
                   if \<not> list_all (\<lambda>r. truthy (ok r)) rows
                   then ([QueryIssued sqlString], Inl (Error ''Mutation blocked due to conflict.''))
                   else ([QueryIssued sqlString], Inr ()))))"

definition isRelevantMutation :: "scope \<Rightarrow> bool" where
  "isRelevantMutation scope =
     (isRootMutation scope \<and> (isPgUpdateMutationField scope \<or> isPgDeleteMutationField scope))"

text \<open>The filter given to \<^verbatim>\<open>makeWrapResolversPlugin\<close>: \<open>None\<close> is \<^verbatim>\<open>null\<close>, the
  field keeps its resolver.\<close>

definition verifyTimestampFilter ::
  "scope \<Rightarrow> 'f build \<Rightarrow> error + (scope \<times> 'f build) option" where
  "verifyTimestampFilter scope build =
     (if isRelevantMutation scope
      then bindE (omit scope) (\<lambda>omitted.
             if \<not> omitted then Inr (Some (scope, build)) else Inr None)
      else Inr None)"

text \<open>The wrapper's first parameter is the host's \<^verbatim>\<open>resolver\<close>: called with no
  argument it runs the wrapped resolver on the call's own parameters, and a
  parameter given to it replaces the one at its position.\<close>

datatype 'v overrides =
    Over0
  | Over1 'v
  | Over2 'v resolve_args
  | Over3 'v resolve_args resolve_context
  | Over4 'v resolve_args resolve_context 'v

definition verifyTimestampWrapper ::
  "string \<Rightarrow> scope \<Rightarrow> 'f build \<Rightarrow> ('v overrides \<Rightarrow> ('v, 'r) io) \<Rightarrow> 'v resolve_params
     \<Rightarrow> ('v, 'r) io" where
  "verifyTimestampWrapper timestampColumn scope build resolver params =
     (case pgFieldIntrospection scope of
        None \<Rightarrow> ([], Inl (TypeError ''attributes''))
      | Some table \<Rightarrow>
          (case find (\<lambda>a. a_name a = timestampColumn) (attributes table) of
             Some timestampAttribute \<Rightarrow>
               bindIO (verifyTimestamp scope build (args_input (rp_args params))
                         (pgClient (rp_context params)) timestampAttribute)
                 (\<lambda>_. resolver Over0)
           | None \<Rightarrow> resolver Over0))"

text \<open>graphile-utils' \<^verbatim>\<open>makeWrapResolversPlugin\<close>, as the plugin relies on it: a field
  for which the filter returns \<^verbatim>\<open>null\<close> keeps its resolver \<open>oldResolve\<close>; otherwise the
  field's resolver becomes the wrapper, given a \<^verbatim>\<open>resolver\<close> that calls \<open>oldResolve\<close> with
  the overriding parameters followed by the remaining original ones.  An exception of
  the filter is raised while the schema is built.\<close>

fun apply_overrides :: "'v overrides \<Rightarrow> 'v resolve_params \<Rightarrow> 'v resolve_params" where
  "apply_overrides Over0 p = p"
| "apply_overrides (Over1 u) p = p\<lparr>rp_parent := u\<rparr>"
| "apply_overrides (Over2 u a) p = p\<lparr>rp_parent := u, rp_args := a\<rparr>"
| "apply_overrides (Over3 u a c) p = p\<lparr>rp_parent := u, rp_args := a, rp_context := c\<rparr>"
| "apply_overrides (Over4 u a c i) p =
     p\<lparr>rp_parent := u, rp_args := a, rp_context := c, rp_info := i\<rparr>"

definition invoke :: "('v resolve_params \<Rightarrow> error + 'r) \<Rightarrow> 'v resolve_params \<Rightarrow> ('v, 'r) io" where
  "invoke oldResolve p = ([ResolverInvoked p], oldResolve p)"

definition smartResolve ::
  "('v resolve_params \<Rightarrow> error + 'r) \<Rightarrow> 'v resolve_params \<Rightarrow> 'v overrides \<Rightarrow> ('v, 'r) io" where
  "smartResolve oldResolve params overrideParams =
     invoke oldResolve (apply_overrides overrideParams params)"

definition makeVerifyTimestampPlugin ::
  "string \<Rightarrow> scope \<Rightarrow> 'f build \<Rightarrow> ('v resolve_params \<Rightarrow> error + 'r)
     \<Rightarrow> error + ('v resolve_params \<Rightarrow> ('v, 'r) io)" where
  "makeVerifyTimestampPlugin timestampColumn scope build oldResolve =
     bindE (verifyTimestampFilter scope build) (\<lambda>filtered.
       case filtered of
         None \<Rightarrow> Inr (invoke oldResolve)
       | Some (scope', build') \<Rightarrow>
           Inr (\<lambda>params. verifyTimestampWrapper timestampColumn scope' build'
                            (smartResolve oldResolve params) params))"

text \<open>The resolver of a mutation field in the schema built with the plugin, applied to
  the parameters of one call; \<open>Inl e\<close> when the schema could not be built.\<close>

definition resolveMutation ::
  "string \<Rightarrow> scope \<Rightarrow> 'f build \<Rightarrow> ('v resolve_params \<Rightarrow> error + 'r) \<Rightarrow> 'v resolve_params
     \<Rightarrow> error + ('v, 'r) io" where
  "resolveMutation timestampColumn scope build oldResolve params =
     bindE (makeVerifyTimestampPlugin timestampColumn scope build oldResolve)
       (\<lambda>resolve. Inr (resolve params))"

subsection \<open>What the verification query computes\<close>

text \<open>
  The select list of the verification query is
  \<^verbatim>\<open>lmValue between (col - '5 microsecond'::interval) and (col + '5 microsecond'::interval)\<close>,
  evaluated once for each row the \<^verbatim>\<open>where\<close> clause matches.  Postgres holds a
  timestamp as a count of microseconds and an interval of microseconds likewise, so
  both are integers here; \<open>None\<close> is SQL's null, and comparison and \<^verbatim>\<open>and\<close> are
  three-valued.  \<^verbatim>\<open>x between a and b\<close> is \<^verbatim>\<open>x >= a and x <= b\<close>.
\<close>

definition sql_minus :: "int option \<Rightarrow> int option \<Rightarrow> int option" where
  "sql_minus a b = (case (a, b) of (Some x, Some y) \<Rightarrow> Some (x - y) | _ \<Rightarrow> None)"

definition sql_plus :: "int option \<Rightarrow> int option \<Rightarrow> int option" where
  "sql_plus a b = (case (a, b) of (Some x, Some y) \<Rightarrow> Some (x + y) | _ \<Rightarrow> None)"

definition sql_ge :: "int option \<Rightarrow> int option \<Rightarrow> bool option" where
  "sql_ge a b = (case (a, b) of (Some x, Some y) \<Rightarrow> Some (y \<le> x) | _ \<Rightarrow> None)"

definition sql_le :: "int option \<Rightarrow> int option \<Rightarrow> bool option" where
  "sql_le a b = (case (a, b) of (Some x, Some y) \<Rightarrow> Some (x \<le> y) | _ \<Rightarrow> None)"

definition sql_and :: "bool option \<Rightarrow> bool option \<Rightarrow> bool option" where
  "sql_and a b =
     (if a = Some False \<or> b = Some False then Some False
      else if a = Some True \<and> b = Some True then Some True
      else None)"

definition sql_between :: "int option \<Rightarrow> int option \<Rightarrow> int option \<Rightarrow> bool option" where
  "sql_between x a b = sql_and (sql_ge x a) (sql_le x b)"

definition five_microsecond :: "int option" where
  "five_microsecond = Some 5"

definition verify_ok :: "int option \<Rightarrow> int option \<Rightarrow> bool option" where
  "verify_ok lmValue sqlColumn =
     sql_between lmValue (sql_minus sqlColumn five_microsecond)
       (sql_plus sqlColumn five_microsecond)"

text \<open>The rows of the result: one for each matched row, given the stored values of the
  version column in the matched rows.\<close>

definition verify_select :: "int option \<Rightarrow> int option list \<Rightarrow> row list" where
  "verify_select lmValue matched = map (\<lambda>stored. \<lparr>ok = verify_ok lmValue stored\<rparr>) matched"

subsection \<open>A table, a build and a call\<close>

text \<open>A table \<^verbatim>\<open>public.person (id int4 primary key, updated_at timestamptz)\<close> and a
  host with camel-case field names, on which the theorems below are run.\<close>

definition ex_id :: pg_attribute where
  "ex_id = \<lparr>a_name = ''id'', a_type = ''int4'', a_typeModifier = None\<rparr>"

definition ex_updated_at :: pg_attribute where
  "ex_updated_at = \<lparr>a_name = ''updated_at'', a_type = ''timestamptz'', a_typeModifier = None\<rparr>"

definition ex_person :: pg_class where
  "ex_person =
     \<lparr>class_name = ''person'', namespace_name = ''public'', type_id = ''16385'',
      attributes = [ex_id, ex_updated_at],
      primaryKeyConstraint = Some \<lparr>keyAttributes = [ex_id]\<rparr>,
      tags = Map.empty\<rparr>"

definition ex_opted_out :: pg_class where
  "ex_opted_out = ex_person\<lparr>tags := [''disableSafeUpdateAndDelete'' \<mapsto> TagTrue]\<rparr>"

definition ex_no_key :: pg_class where
  "ex_no_key = ex_person\<lparr>primaryKeyConstraint := None\<rparr>"

fun ex_decimal :: "nat \<Rightarrow> nat \<Rightarrow> string" where
  "ex_decimal 0 n = []"
| "ex_decimal (Suc fuel) n =
     (if n < 10 then [''0123456789'' ! n]
      else ex_decimal fuel (n div 10) @ [''0123456789'' ! (n mod 10)])"

fun ex_names :: "string list \<Rightarrow> string" where
  "ex_names [] = []"
| "ex_names [n] = [CHR 0x22] @ n @ [CHR 0x22]"
| "ex_names (n # m # r) = [CHR 0x22] @ n @ [CHR 0x22] @ ''.'' @ ex_names (m # r)"

fun ex_text :: "nat \<Rightarrow> sql_query \<Rightarrow> string" where
  "ex_text k [] = []"
| "ex_text k (Raw t # q) = t @ ex_text k q"
| "ex_text k (Identifier ns # q) = ex_names ns @ ex_text k q"
| "ex_text k (Value v # q) = ''$'' @ ex_decimal (Suc (Suc k)) (Suc k) @ ex_text (Suc k) q"

fun ex_values :: "sql_query \<Rightarrow> jsval list" where
  "ex_values [] = []"
| "ex_values (Value v # q) = v # ex_values q"
| "ex_values (n # q) = ex_values q"

definition ex_compile :: "sql_query \<Rightarrow> query_config" where
  "ex_compile q = \<lparr>q_text = ex_text 0 q, q_values = ex_values q\<rparr>"

text \<open>The node identifier \<open>ex_node_person\<close> decodes to the person with key 1,
  \<open>ex_node_post\<close> to a post with two key parts; anything else does not decode.\<close>

definition ex_node_person :: jsval where
  "ex_node_person = JStr ''WyJwZW9wbGUiLDFd''"

definition ex_node_post :: jsval where
  "ex_node_post = JStr ''WyJwb3N0cyIsMSwyXQ==''"

definition ex_decode :: "jsval \<Rightarrow> error + (gql_type option \<times> jsval list)" where
  "ex_decode nodeId =
     (if nodeId = ex_node_person then Inr (Some (NamedType ''Person''), [JNum 1])
      else if nodeId = ex_node_post then Inr (Some (NamedType ''Post''), [JNum 1, JNum 2])
      else Inl (Error ''Unexpected token''))"

definition ex_extend ::
  "(string \<times> field_spec) list \<Rightarrow> (string \<times> field_spec) list
     \<Rightarrow> error + (string \<times> field_spec) list" where
  "ex_extend base extra =
     (if list_ex (\<lambda>k. k \<in> set (map fst base)) (map fst extra)
      then Inl (Error ''Overwriting key is not allowed'')
      else Inr (base @ extra))"

definition ex_build :: "field_spec build" where
  "ex_build =
     \<lparr>gql2pg = (\<lambda>v t m. Inr [Value v, Raw ''::'', Identifier [t]]),
      inflection_column = (\<lambda>a. if a_name a = ''updated_at'' then ''updatedAt'' else a_name a),
      nodeIdFieldName = ''nodeId'',
      pgGetGqlTypeByTypeIdAndModifier =
        (\<lambda>i m. if i = ''16385'' then Some (NamedType ''Person'') else None),
      getTypeAndIdentifiersFromNodeId = ex_decode,
      getTypeByName = (\<lambda>n. Some (NamedType n)),
      build_extend = ex_extend,
      pgSql_compile = ex_compile\<rparr>"

definition ex_fieldWithHooks :: "string \<Rightarrow> field_spec \<Rightarrow> field_spec" where
  "ex_fieldWithHooks fieldName spec = spec"

text \<open>The scope of the root mutation fields \<^verbatim>\<open>updatePersonById\<close> (by key) and
  \<^verbatim>\<open>updatePerson\<close> (by node identifier), and of an input type.\<close>

definition ex_scope :: scope where
  "ex_scope =
     \<lparr>pgIntrospection = None, pgFieldIntrospection = Some ex_person,
      pgFieldConstraint = Some \<lparr>keyAttributes = [ex_id]\<rparr>,
      isPgUpdateInputType = False, isPgDeleteInputType = False, isPgNodeMutation = False,
      isRootMutation = True, isPgUpdateMutationField = True,
      isPgDeleteMutationField = False\<rparr>"

definition ex_node_scope :: scope where
  "ex_node_scope = ex_scope\<lparr>pgFieldConstraint := None, isPgNodeMutation := True\<rparr>"

definition ex_input_scope :: "pg_class option \<Rightarrow> bool \<Rightarrow> bool \<Rightarrow> scope" where
  "ex_input_scope table upd del =
     \<lparr>pgIntrospection = table, pgFieldIntrospection = None, pgFieldConstraint = None,
      isPgUpdateInputType = upd, isPgDeleteInputType = del, isPgNodeMutation = False,
      isRootMutation = False, isPgUpdateMutationField = False,
      isPgDeleteMutationField = False\<rparr>"

text \<open>A database in which the rows matched by the condition hold the given version
  values, asked with the client's version \<open>lm\<close>; a call with the given input; and a
  wrapped resolver that returns the identifier it was given.\<close>

definition ex_client :: "int \<Rightarrow> int option list \<Rightarrow> pg_client" where
  "ex_client lm matched = \<lparr>client_query = (\<lambda>q. Inr (verify_select (Some lm) matched))\<rparr>"

definition ex_params ::
  "(string \<times> jsval) list \<Rightarrow> pg_client \<Rightarrow> string resolve_params" where
  "ex_params inp client =
     \<lparr>rp_parent = ''root'', rp_args = \<lparr>args_input = map_of inp\<rparr>,
      rp_context = \<lparr>pgClient = client\<rparr>, rp_info = ''info''\<rparr>"

definition ex_by_id :: "(string \<times> jsval) list" where
  "ex_by_id = [(''id'', JNum 1), (''updatedAt'', JStr ''2020-01-01T00:00:00.000100Z'')]"

definition ex_by_node :: "jsval \<Rightarrow> (string \<times> jsval) list" where
  "ex_by_node nodeId =
     [(''nodeId'', nodeId), (''updatedAt'', JStr ''2020-01-01T00:00:00.000100Z'')]"

definition ex_oldResolve :: "string resolve_params \<Rightarrow> error + jsval" where
  "ex_oldResolve p = Inr (js_get (args_input (rp_args p)) ''id'')"

text \<open>The verification queries of the two calls.\<close>

definition ex_select :: sql_query where
  "ex_select =
     [Raw ''  select '',
      Value (JStr ''2020-01-01T00:00:00.000100Z''), Raw ''::'', Identifier [''timestamptz''],
      Raw '' between ('', Identifier [''updated_at''],
      Raw '' - '5 microsecond'::interval)\<newline>    and ('', Identifier [''updated_at''],
      Raw '' + '5 microsecond'::interval) as ok\<newline>    from '',
      Identifier [''public'', ''person''],
      Raw ''\<newline>  where '',
      Raw ''('', Identifier [''id''], Raw '' = '', Value (JNum 1), Raw ''::'',
      Identifier [''int4''], Raw '')'',
      Raw ''\<newline>  for update'']"

section \<open>Properties\<close>

subsection \<open>Sequencing and the steps of a call\<close>

lemma bindE_Inl [simp]: "bindE (Inl e) f = Inl e"
  by (simp add: bindE_def)

lemma bindE_Inr [simp]: "bindE (Inr x) f = f x"
  by (simp add: bindE_def)

lemma bindIO_error [simp]: "bindIO (evs, Inl e) f = (evs, Inl e)"
  by (simp add: bindIO_def)

lemma bindIO_value [simp]: "bindIO (evs, Inr x) f = (evs @ fst (f x), snd (f x))"
  by (simp add: bindIO_def)

lemma smartResolve_Over0 [simp]:
  "smartResolve oldResolve params Over0 = ([ResolverInvoked params], oldResolve params)"
  by (simp add: smartResolve_def invoke_def)


lemma verifyTimestamp_rows:
  assumes "getVerifyTimestampSqlQuery scope build inp ta = Inr q"
    and "client_query client (pgSql_compile build q) = Inr rows"
  shows "verifyTimestamp scope build inp client ta =
           ([QueryIssued (pgSql_compile build q)],
            if list_all (\<lambda>r. truthy (ok r)) rows then Inr ()
            else Inl (Error ''Mutation blocked due to conflict.''))"
  using assms by (simp add: verifyTimestamp_def)

lemma verifyTimestamp_query_fails:
  assumes "getVerifyTimestampSqlQuery scope build inp ta = Inr q"
    and "client_query client (pgSql_compile build q) = Inl e"
  shows "verifyTimestamp scope build inp client ta = ([QueryIssued (pgSql_compile build q)], Inl e)"
  using assms by (simp add: verifyTimestamp_def)

text \<open>The filter: a relevant mutation on a table that is not opted out is wrapped, a
  table that is opted out never is, and a scope with a table never makes \<open>omit\<close>
  raise.\<close>

lemma omit_defined:
  assumes "pgIntrospection scope = Some table \<or> pgFieldIntrospection scope = Some table"
  shows "\<exists>b. omit scope = Inr b"
  using assms by (auto simp add: omit_def split: option.splits)

lemma filter_guarded:
  assumes "isRelevantMutation scope" and "omit scope = Inr False"
  shows "verifyTimestampFilter scope build = Inr (Some (scope, build))"
  using assms by (simp add: verifyTimestampFilter_def)

lemma filter_omitted:
  assumes "omit scope = Inr True"
  shows "verifyTimestampFilter scope build = Inr None"
  using assms by (simp add: verifyTimestampFilter_def)

text \<open>A call on a guarded table: verification, then the wrapped resolver.\<close>

lemma wrapper_guarded:
  assumes "pgFieldIntrospection scope = Some table"
    and "find (\<lambda>a. a_name a = timestampColumn) (attributes table) = Some ta"
  shows "verifyTimestampWrapper timestampColumn scope build resolver params =
           bindIO (verifyTimestamp scope build (args_input (rp_args params))
                     (pgClient (rp_context params)) ta)
             (\<lambda>_. resolver Over0)"
  using assms by (simp add: verifyTimestampWrapper_def)

lemma resolveMutation_guarded:
  assumes "isRelevantMutation scope" and "omit scope = Inr False"
    and "pgFieldIntrospection scope = Some table"
    and "find (\<lambda>a. a_name a = timestampColumn) (attributes table) = Some ta"
  shows "resolveMutation timestampColumn scope build oldResolve params =
           Inr (bindIO (verifyTimestamp scope build (args_input (rp_args params))
                          (pgClient (rp_context params)) ta)
                  (\<lambda>_. ([ResolverInvoked params], oldResolve params)))"
  using assms
  by (simp add: resolveMutation_def makeVerifyTimestampPlugin_def filter_guarded
      verifyTimestampWrapper_def)

lemma resolveMutation_unwrapped:
  assumes "verifyTimestampFilter scope build = Inr None"
  shows "resolveMutation timestampColumn scope build oldResolve params =
           Inr ([ResolverInvoked params], oldResolve params)"
  using assms by (simp add: resolveMutation_def makeVerifyTimestampPlugin_def invoke_def)

text \<open>Whatever makes \<^verbatim>\<open>verifyTimestamp\<close> throw ends the call with that error, and
  the wrapped resolver is not invoked.\<close>

lemma resolveMutation_verify_fails:
  fixes params :: "'v resolve_params"
  assumes "isRelevantMutation scope" and "omit scope = Inr False"
    and "pgFieldIntrospection scope = Some table"
    and "find (\<lambda>a. a_name a = timestampColumn) (attributes table) = Some ta"
    and "verifyTimestamp scope build (args_input (rp_args params))
           (pgClient (rp_context params)) ta = ((evs :: 'v event list), Inl e)"
  shows "resolveMutation timestampColumn scope build oldResolve params = Inr (evs, Inl e)"
  using assms(5) by (simp add: resolveMutation_guarded [OF assms(1-4)])

lemma resolveMutation_verify_passes:
  fixes params :: "'v resolve_params"
  assumes "isRelevantMutation scope" and "omit scope = Inr False"
    and "pgFieldIntrospection scope = Some table"
    and "find (\<lambda>a. a_name a = timestampColumn) (attributes table) = Some ta"
    and "verifyTimestamp scope build (args_input (rp_args params))
           (pgClient (rp_context params)) ta = ((evs :: 'v event list), Inr ())"
  shows "resolveMutation timestampColumn scope build oldResolve params
           = Inr (evs @ [ResolverInvoked params], oldResolve params)"
  using assms(5) by (simp add: resolveMutation_guarded [OF assms(1-4)])

subsection \<open>The verification query's result\<close>

lemma verify_ok_window:
  "verify_ok (Some c) (Some s) = Some (s - 5 \<le> c \<and> c \<le> s + 5)"
  by (simp add: verify_ok_def sql_between_def sql_and_def sql_ge_def sql_le_def sql_minus_def
      sql_plus_def five_microsecond_def)


lemma sql_template_verify:
  "sql_template verify_template [lmValue, sqlColumn, sqlColumn2, tbl, condition]
   = [Raw ''  select ''] @ lmValue @ [Raw '' between (''] @ sqlColumn
     @ [Raw '' - '5 microsecond'::interval)\<newline>    and (''] @ sqlColumn2
     @ [Raw '' + '5 microsecond'::interval) as ok\<newline>    from ''] @ tbl
     @ [Raw ''\<newline>  where ''] @ condition @ [Raw ''\<newline>  for update'']"
  by (simp add: verify_template_def sql_raw_def)

lemma getVerifyTimestampSqlQuery_shape:
  assumes "getVerifyTimestampSqlQuery scope build input ta = Inr q"
  shows "\<exists>lmValue table condition.
           (if isPgNodeMutation scope then getNodeMutationCondition scope build input
            else getMutationCondition scope build input) = Inr condition
         \<and> gql2pg build (js_get input (inflection_column build ta)) (a_type ta) (a_typeModifier ta)
             = Inr lmValue
         \<and> pgFieldIntrospection scope = Some table
         \<and> q = sql_template verify_template
                 [lmValue, sql_identifier [a_name ta], sql_identifier [a_name ta],
                  sql_identifier [namespace_name table, class_name table], condition]"
  using assms unfolding getVerifyTimestampSqlQuery_def bindE_def Let_def
  by (auto split: sum.splits option.splits)

subsection \<open>The node identifier\<close>





subsection \<open>The input-type hook\<close>

lemma hook_omitted:
  assumes "omit scope = Inr True" and "pgIntrospection scope \<noteq> None"
  shows "AddTimestampFieldPlugin timestampColumn oldFields build fieldWithHooks scope
           = Inr oldFields"
  using assms by (auto simp add: AddTimestampFieldPlugin_def)

lemma hook_missing_column:
  assumes "find (\<lambda>a. a_name a = timestampColumn) (attributes table) = None"
    and "pgIntrospection scope = Some table"
  shows "AddTimestampFieldPlugin timestampColumn oldFields build fieldWithHooks scope
           = Inr oldFields"
proof -
  obtain b where "omit scope = Inr b"
    using omit_defined assms(2) by blast
  then show ?thesis
    using assms by (simp add: AddTimestampFieldPlugin_def)
qed

lemma resolver_missing_column:
  assumes "find (\<lambda>a. a_name a = timestampColumn) (attributes table) = None"
    and "pgFieldIntrospection scope = Some table"
  shows "resolveMutation timestampColumn scope build oldResolve params
           = Inr ([ResolverInvoked params], oldResolve params)"
proof -
  obtain b where "omit scope = Inr b"
    using omit_defined assms(2) by blast
  then show ?thesis
    using assms
    by (simp add: resolveMutation_def makeVerifyTimestampPlugin_def verifyTimestampFilter_def
        verifyTimestampWrapper_def invoke_def)
qed

text \<open>On the update or delete input type of a table that is not opted out and has the
  version column, the hook returns \<^verbatim>\<open>build.extend\<close> of the fields it was given and one
  field: named by \<^verbatim>\<open>inflection.column\<close> on the version attribute, of type non-null
  \<^verbatim>\<open>Datetime\<close>, described as the value of the existing row to be updated or deleted.  On
  any other input type whose scope has a table it returns the fields it was given.\<close>

lemma timestamp_field_added:
  assumes "pgIntrospection scope = Some table"
    and "isPgUpdateInputType scope \<or> isPgDeleteInputType scope"
    and "omit scope = Inr False"
    and "find (\<lambda>a. a_name a = timestampColumn) (attributes table) = Some ta"
  shows "AddTimestampFieldPlugin timestampColumn oldFields build fieldWithHooks scope
         = build_extend build oldFields
             [(inflection_column build ta,
               fieldWithHooks (inflection_column build ta)
                 \<lparr>field_type = GraphQLNonNull (getTypeByName build ''Datetime''),
                  description = ''The '' @ [CHR 0x22] @ inflection_column build ta @ [CHR 0x22]
                    @ '' value of the existing row to be ''
                    @ (if isPgUpdateInputType scope then ''updated'' else ''deleted'')\<rparr>)]"
  using assms by (auto simp add: AddTimestampFieldPlugin_def timestampFieldSpec_def Let_def)

lemma fields_unchanged_otherwise:
  assumes "pgIntrospection scope = Some table"
    and "\<not> ((isPgUpdateInputType scope \<or> isPgDeleteInputType scope) \<and> omit scope = Inr False
            \<and> find (\<lambda>a. a_name a = timestampColumn) (attributes table) \<noteq> None)"
  shows "AddTimestampFieldPlugin timestampColumn oldFields build fieldWithHooks scope
           = Inr oldFields"
proof -
  obtain b where "omit scope = Inr b"
    using omit_defined assms(1) by blast
  then show ?thesis
    using assms by (auto simp add: AddTimestampFieldPlugin_def split: option.splits)
qed

subsection \<open>The example table\<close>

lemmas ex_defs =
  ex_id_def ex_updated_at_def ex_person_def ex_opted_out_def ex_no_key_def ex_compile_def
  ex_node_person_def ex_node_post_def ex_decode_def ex_extend_def ex_build_def
  ex_fieldWithHooks_def ex_scope_def ex_node_scope_def ex_input_scope_def ex_client_def
  ex_params_def ex_by_id_def ex_by_node_def ex_oldResolve_def ex_select_def

lemmas model_defs =
  omit_def isRelevantMutation_def getMutationCondition_def getNodeMutationCondition_def
  getVerifyTimestampSqlQuery_def key_equals_def conjunction_def sql_identifier_def sql_raw_def
  verify_template_def js_get_def

lemma ex_params_simps [simp]:
  "args_input (rp_args (ex_params inp client)) = map_of inp"
  "pgClient (rp_context (ex_params inp client)) = client"
  by (simp_all add: ex_params_def)

lemma ex_scope_guarded:
  "isRelevantMutation ex_scope" "omit ex_scope = Inr False"
  "pgFieldIntrospection ex_scope = Some ex_person"
  "find (\<lambda>a. a_name a = ''updated_at'') (attributes ex_person) = Some ex_updated_at"
  by (simp_all add: ex_defs model_defs)

lemma ex_node_scope_guarded:
  "isRelevantMutation ex_node_scope" "omit ex_node_scope = Inr False"
  "pgFieldIntrospection ex_node_scope = Some ex_person"
  "find (\<lambda>a. a_name a = ''updated_at'') (attributes ex_person) = Some ex_updated_at"
  "isPgNodeMutation ex_node_scope"
  by (simp_all add: ex_defs model_defs)


lemma ex_query_by_id:
  "getVerifyTimestampSqlQuery ex_scope ex_build (map_of ex_by_id) ex_updated_at = Inr ex_select"
  by (simp add: ex_defs model_defs)

lemma ex_query_by_node:
  "getVerifyTimestampSqlQuery ex_node_scope ex_build (map_of (ex_by_node ex_node_person))
     ex_updated_at = Inr ex_select"
  by (simp add: ex_defs model_defs)

lemma ex_compile_build [simp]: "pgSql_compile ex_build = ex_compile"
  by (simp add: ex_build_def)

lemma ex_oldResolve_by_id [simp]: "ex_oldResolve (ex_params ex_by_id client) = Inr (JNum 1)"
  by (simp add: ex_oldResolve_def ex_by_id_def js_get_def)

lemma ex_oldResolve_by_node [simp]:
  "ex_oldResolve (ex_params (ex_by_node nodeId) client) = Inr JUndefined"
  by (simp add: ex_oldResolve_def ex_by_node_def js_get_def)

section \<open>The claims\<close>

subsection \<open>C1: a condition that matches no row\<close>

text \<open>
  Claim C1 reads: when the row-locating condition matches zero rows, the call fails with
  the conflict error and the wrapped resolver is not invoked.  It does not hold.  For the
  person with key 1, with no such row in the table, the database returns no row; the
  test \<^verbatim>\<open>rows.every(row => row.ok)\<close> holds of the empty array, nothing is thrown, and
  the wrapped resolver runs and returns.
\<close>

theorem zero_rows_counterexample:
  "client_query (ex_client 100 []) (ex_compile ex_select) = Inr (verify_select (Some 100) [])
   \<and> verify_select (Some 100) [] = []
   \<and> resolveMutation ''updated_at'' ex_scope ex_build ex_oldResolve
         (ex_params ex_by_id (ex_client 100 []))
       = Inr ([QueryIssued (ex_compile ex_select),
               ResolverInvoked (ex_params ex_by_id (ex_client 100 []))],
              Inr (JNum 1))"
proof -
  have "verifyTimestamp ex_scope ex_build (map_of ex_by_id) (ex_client 100 []) ex_updated_at
          = ([QueryIssued (ex_compile ex_select) :: string event], Inr ())"
    using verifyTimestamp_rows [OF ex_query_by_id, of "ex_client 100 []" "[]"]
    by (simp add: ex_client_def verify_select_def)
  then show ?thesis
    by (simp add: resolveMutation_guarded [OF ex_scope_guarded] ex_client_def verify_select_def)
qed

text \<open>
  Claim C1, as the code has it.  On a guarded table, when the row-locating condition
  matches zero rows and the verification query therefore returns no row,
  \<^verbatim>\<open>verifyTimestamp\<close> does not throw: the call issues the verification query, then
  invokes the wrapped resolver once on the call's own parameters, and the resolver's
  result or failure is the result of the call.
\<close>

theorem zero_rows_pass_through:
  fixes params :: "'v resolve_params"
  assumes "isRelevantMutation scope" and "omit scope = Inr False"
    and "pgFieldIntrospection scope = Some table"
    and "find (\<lambda>a. a_name a = timestampColumn) (attributes table) = Some ta"
    and "getVerifyTimestampSqlQuery scope build (args_input (rp_args params)) ta = Inr q"
    and "client_query (pgClient (rp_context params)) (pgSql_compile build q)
           = Inr (verify_select lmValue [])"
  shows "verifyTimestamp scope build (args_input (rp_args params))
             (pgClient (rp_context params)) ta
           = ([QueryIssued (pgSql_compile build q) :: 'v event], Inr ())
       \<and> resolveMutation timestampColumn scope build oldResolve params
           = Inr ([QueryIssued (pgSql_compile build q), ResolverInvoked params],
                  oldResolve params)"
proof -
  have passes: "verifyTimestamp scope build (args_input (rp_args params))
               (pgClient (rp_context params)) ta
             = ([QueryIssued (pgSql_compile build q) :: 'v event], Inr ())"
    using verifyTimestamp_rows [OF assms(5) assms(6)] by (simp add: verify_select_def)
  show ?thesis
    using passes resolveMutation_verify_passes [OF assms(1-4) passes] by simp
qed

text \<open>The same on a concrete call, by node identifier.\<close>

theorem zero_rows_pass_through_witness:
  "resolveMutation ''updated_at'' ex_node_scope ex_build ex_oldResolve
     (ex_params (ex_by_node ex_node_person) (ex_client 100 []))
   = Inr ([QueryIssued (ex_compile ex_select),
           ResolverInvoked (ex_params (ex_by_node ex_node_person) (ex_client 100 []))],
          Inr JUndefined)"
proof -
  have q: "getVerifyTimestampSqlQuery ex_node_scope ex_build
             (args_input (rp_args (ex_params (ex_by_node ex_node_person) (ex_client 100 []))))
             ex_updated_at = Inr ex_select"
    using ex_query_by_node by simp
  have rows: "client_query (pgClient (rp_context
                 (ex_params (ex_by_node ex_node_person) (ex_client 100 []))))
               (pgSql_compile ex_build ex_select) = Inr (verify_select (Some 100) [])"
    by (simp add: ex_client_def)
  show ?thesis
    using zero_rows_pass_through [OF ex_node_scope_guarded(1-4) q rows, of ex_oldResolve]
    by simp
qed

subsection \<open>C2: a version outside the tolerance window\<close>

text \<open>
  Claim C2.  For an update or delete mutation on a guarded table that is not opted out,
  when the stored version of some row matched by the row-locating condition differs from
  the client-supplied version by more than five microseconds, \<^verbatim>\<open>verifyTimestamp\<close>
  throws \<^verbatim>\<open>Mutation blocked due to conflict.\<close> after its query, and the call ends with
  that error: the only event is the query, the wrapped resolver is never invoked.
\<close>

theorem conflict_blocks_mutation:
  fixes params :: "'v resolve_params"
  assumes "isRelevantMutation scope" and "omit scope = Inr False"
    and "pgFieldIntrospection scope = Some table"
    and "find (\<lambda>a. a_name a = timestampColumn) (attributes table) = Some ta"
    and "getVerifyTimestampSqlQuery scope build (args_input (rp_args params)) ta = Inr q"
    and "client_query (pgClient (rp_context params)) (pgSql_compile build q)
           = Inr (verify_select (Some client) matched)"
    and "Some stored \<in> set matched" and "5 < \<bar>stored - client\<bar>"
  shows "verifyTimestamp scope build (args_input (rp_args params))
             (pgClient (rp_context params)) ta
           = ([QueryIssued (pgSql_compile build q) :: 'v event],
              Inl (Error ''Mutation blocked due to conflict.''))
         \<and> resolveMutation timestampColumn scope build oldResolve params
           = Inr ([QueryIssued (pgSql_compile build q)],
                  Inl (Error ''Mutation blocked due to conflict.''))"
proof -
  have "verify_ok (Some client) (Some stored) = Some False"
    using assms(8) by (auto simp add: verify_ok_window)
  then have "\<lparr>ok = Some False\<rparr> \<in> set (verify_select (Some client) matched)"
    using assms(7) by (force simp add: verify_select_def)
  then have "\<exists>r \<in> set (verify_select (Some client) matched). \<not> truthy (ok r)"
    by (rule bexI [rotated]) (simp add: truthy_def)
  then have "\<not> list_all (\<lambda>r. truthy (ok r)) (verify_select (Some client) matched)"
    by (simp add: list_all_iff)
  then have blocked: "verifyTimestamp scope build (args_input (rp_args params))
               (pgClient (rp_context params)) ta
             = ([QueryIssued (pgSql_compile build q) :: 'v event],
                Inl (Error ''Mutation blocked due to conflict.''))"
    using verifyTimestamp_rows [OF assms(5) assms(6)] by simp
  show ?thesis
    using blocked resolveMutation_verify_fails [OF assms(1-4) blocked] by simp
qed

text \<open>The client read version 100; the row now holds 106.\<close>

theorem conflict_blocks_mutation_witness:
  "resolveMutation ''updated_at'' ex_scope ex_build ex_oldResolve
     (ex_params ex_by_id (ex_client 100 [Some 106]))
   = Inr ([QueryIssued (ex_compile ex_select)],
          Inl (Error ''Mutation blocked due to conflict.''))"
proof -
  have rows: "client_query (pgClient (rp_context (ex_params ex_by_id (ex_client 100 [Some 106]))))
                (pgSql_compile ex_build ex_select) = Inr (verify_select (Some 100) [Some 106])"
    by (simp add: ex_client_def)
  have q: "getVerifyTimestampSqlQuery ex_scope ex_build
             (args_input (rp_args (ex_params ex_by_id (ex_client 100 [Some 106]))))
             ex_updated_at = Inr ex_select"
    using ex_query_by_id by simp
  have far: "Some 106 \<in> set [Some (106::int)]" "5 < \<bar>(106::int) - 100\<bar>"
    by simp_all
  show ?thesis
    using conflict_blocks_mutation [OF ex_scope_guarded q rows far, of ex_oldResolve]
    by simp
qed

subsection \<open>C3: the verification query locks the rows it reads\<close>

text \<open>
  Claim C3.  Whenever \<^verbatim>\<open>getVerifyTimestampSqlQuery\<close> returns a query, the query is the
  select of the comparison from the table, \<^verbatim>\<open>where\<close> the row-locating condition built
  for the call's mode, ending in \<^verbatim>\<open>for update\<close> with nothing after it; and the one
  query \<^verbatim>\<open>verifyTimestamp\<close> sends is the compiled form of this query.  So the rows the
  decision is based on are the rows the condition matches, read under a row lock.
\<close>

theorem verification_query_locks_rows:
  assumes "getVerifyTimestampSqlQuery scope build input ta = Inr q"
  shows "\<exists>lmValue table condition.
           (if isPgNodeMutation scope then getNodeMutationCondition scope build input
            else getMutationCondition scope build input) = Inr condition
         \<and> pgFieldIntrospection scope = Some table
         \<and> q = [Raw ''  select ''] @ lmValue
               @ [Raw '' between ('', Identifier [a_name ta],
                  Raw '' - '5 microsecond'::interval)\<newline>    and ('', Identifier [a_name ta],
                  Raw '' + '5 microsecond'::interval) as ok\<newline>    from '',
                  Identifier [namespace_name table, class_name table],
                  Raw ''\<newline>  where '']
               @ condition @ [Raw ''\<newline>  for update'']
         \<and> fst (verifyTimestamp scope build input client ta :: ('v, unit) io)
             = [QueryIssued (pgSql_compile build q)]"
proof -
  from getVerifyTimestampSqlQuery_shape [OF assms]
  obtain lmValue table condition where
    c: "(if isPgNodeMutation scope then getNodeMutationCondition scope build input
         else getMutationCondition scope build input) = Inr condition"
    and t: "pgFieldIntrospection scope = Some table"
    and q: "q = sql_template verify_template
                 [lmValue, sql_identifier [a_name ta], sql_identifier [a_name ta],
                  sql_identifier [namespace_name table, class_name table], condition]"
    by blast
  have issued: "fst (verifyTimestamp scope build input client ta :: ('v, unit) io)
                = [QueryIssued (pgSql_compile build q)]"
    using assms by (simp add: verifyTimestamp_def Let_def split: sum.splits)
  show ?thesis
    apply (rule exI [of _ lmValue], rule exI [of _ table], rule exI [of _ condition])
    using c t issued by (simp add: q sql_template_verify sql_identifier_def)
qed

text \<open>The query of the update of person 1.\<close>

theorem verification_query_locks_rows_witness:
  "\<exists>lmValue table condition.
     getMutationCondition ex_scope ex_build (map_of ex_by_id) = Inr condition
   \<and> pgFieldIntrospection ex_scope = Some table
   \<and> ex_select = [Raw ''  select ''] @ lmValue
         @ [Raw '' between ('', Identifier [''updated_at''],
            Raw '' - '5 microsecond'::interval)\<newline>    and ('', Identifier [''updated_at''],
            Raw '' + '5 microsecond'::interval) as ok\<newline>    from '',
            Identifier [namespace_name table, class_name table],
            Raw ''\<newline>  where '']
         @ condition @ [Raw ''\<newline>  for update'']
   \<and> fst (verifyTimestamp ex_scope ex_build (map_of ex_by_id) (ex_client 100 [Some 100])
            ex_updated_at :: (string, unit) io)
       = [QueryIssued (ex_compile ex_select)]"
proof -
  have "\<not> isPgNodeMutation ex_scope" "a_name ex_updated_at = ''updated_at''"
    by (simp_all add: ex_scope_def ex_updated_at_def)
  then show ?thesis
    using verification_query_locks_rows [OF ex_query_by_id, of "ex_client 100 [Some 100]"]
    by simp
qed

subsection \<open>C4: a node identifier of the wrong type or arity\<close>




subsection \<open>C5: verification passes\<close>

text \<open>
  Claim C5.  When verification passes, that is, the column \<^verbatim>\<open>ok\<close> of every row the
  locked read returns is true, the wrapper calls the host's \<^verbatim>\<open>resolver\<close> once, with no
  overriding parameter, after the query; so the wrapped resolver is invoked exactly once,
  on the call's own parameters, and its result or failure is the result of the call.
\<close>

theorem allowed_invokes_once:
  fixes params :: "'v resolve_params"
  assumes "isRelevantMutation scope" and "omit scope = Inr False"
    and "pgFieldIntrospection scope = Some table"
    and "find (\<lambda>a. a_name a = timestampColumn) (attributes table) = Some ta"
    and "getVerifyTimestampSqlQuery scope build (args_input (rp_args params)) ta = Inr q"
    and "client_query (pgClient (rp_context params)) (pgSql_compile build q) = Inr rows"
    and "\<forall>r \<in> set rows. ok r = Some True"
  shows "verifyTimestampWrapper timestampColumn scope build resolver params
           = (QueryIssued (pgSql_compile build q) # fst (resolver Over0), snd (resolver Over0))
       \<and> resolveMutation timestampColumn scope build oldResolve params
           = Inr ([QueryIssued (pgSql_compile build q), ResolverInvoked params],
                  oldResolve params)"
proof -
  have "list_all (\<lambda>r. truthy (ok r)) rows"
    using assms(7) by (simp add: list_all_iff truthy_def)
  then have passes: "verifyTimestamp scope build (args_input (rp_args params))
               (pgClient (rp_context params)) ta
             = ([QueryIssued (pgSql_compile build q) :: 'v event], Inr ())"
    using verifyTimestamp_rows [OF assms(5) assms(6)] by simp
  have "verifyTimestampWrapper timestampColumn scope build resolver params
          = (QueryIssued (pgSql_compile build q) # fst (resolver Over0), snd (resolver Over0))"
    using passes by (simp add: wrapper_guarded [OF assms(3,4)])
  then show ?thesis
    using resolveMutation_verify_passes [OF assms(1-4) passes] by simp
qed

text \<open>The client read version 100; the row holds 103, inside the window.\<close>

theorem allowed_invokes_once_witness:
  "resolveMutation ''updated_at'' ex_scope ex_build ex_oldResolve
     (ex_params ex_by_id (ex_client 100 [Some 103]))
   = Inr ([QueryIssued (ex_compile ex_select),
           ResolverInvoked (ex_params ex_by_id (ex_client 100 [Some 103]))],
          Inr (JNum 1))"
proof -
  have rows: "client_query (pgClient (rp_context (ex_params ex_by_id (ex_client 100 [Some 103]))))
                (pgSql_compile ex_build ex_select) = Inr [\<lparr>ok = Some True\<rparr>]"
    by (simp add: ex_client_def verify_select_def verify_ok_window)
  have q: "getVerifyTimestampSqlQuery ex_scope ex_build
             (args_input (rp_args (ex_params ex_by_id (ex_client 100 [Some 103]))))
             ex_updated_at = Inr ex_select"
    using ex_query_by_id by simp
  have every: "\<forall>r \<in> set [\<lparr>ok = Some True\<rparr>]. ok r = Some True"
    by simp
  show ?thesis
    using allowed_invokes_once [OF ex_scope_guarded q rows every,
        where oldResolve = ex_oldResolve
        and resolver = "smartResolve ex_oldResolve (ex_params ex_by_id (ex_client 100 [Some 103]))"]
    by simp
qed

subsection \<open>C6: the tolerance window\<close>



subsection \<open>C7: a table that is opted out\<close>

text \<open>
  Claim C7.  When the tag \<^verbatim>\<open>disableSafeUpdateAndDelete\<close> of the scope's table is set, so
  that \<open>omit\<close> returns true, both hooks do nothing, whether or not the table has the
  version column: the input-type hook returns the fields it was given, and the filter
  returns \<^verbatim>\<open>null\<close>, so the field keeps its resolver, which is invoked on the call's
  parameters with no verification query.
\<close>

theorem opt_out_no_ops:
  assumes "omit scope = Inr True"
  shows "(pgIntrospection scope \<noteq> None
            \<longrightarrow> AddTimestampFieldPlugin timestampColumn oldFields build fieldWithHooks scope
                  = Inr oldFields)
       \<and> verifyTimestampFilter scope build = Inr None
       \<and> resolveMutation timestampColumn scope build oldResolve params
           = Inr ([ResolverInvoked params], oldResolve params)"
  by (simp add: hook_omitted [OF assms] filter_omitted [OF assms]
      resolveMutation_unwrapped [OF filter_omitted [OF assms]])

text \<open>The update input type and the update mutation of the person table with the tag
  set, and a stored version far from the client's.\<close>

theorem opt_out_no_ops_witness:
  "AddTimestampFieldPlugin ''updated_at'' [] ex_build ex_fieldWithHooks
     (ex_input_scope (Some ex_opted_out) True False) = Inr []
   \<and> resolveMutation ''updated_at'' (ex_scope\<lparr>pgFieldIntrospection := Some ex_opted_out\<rparr>)
       ex_build ex_oldResolve (ex_params ex_by_id (ex_client 100 [Some 200]))
     = Inr ([ResolverInvoked (ex_params ex_by_id (ex_client 100 [Some 200]))], Inr (JNum 1))"
proof -
  have o1: "omit (ex_input_scope (Some ex_opted_out) True False) = Inr True"
    and o2: "omit (ex_scope\<lparr>pgFieldIntrospection := Some ex_opted_out\<rparr>) = Inr True"
    and t: "pgIntrospection (ex_input_scope (Some ex_opted_out) True False) \<noteq> None"
    by (simp_all add: omit_def ex_input_scope_def ex_scope_def ex_opted_out_def ex_person_def)
  show ?thesis
    using opt_out_no_ops [OF o1, where timestampColumn = "''updated_at''" and oldFields = "[]"
        and build = ex_build and fieldWithHooks = ex_fieldWithHooks
        and oldResolve = ex_oldResolve
        and params = "ex_params ex_by_id (ex_client 100 [Some 200])"]
      opt_out_no_ops [OF o2, where timestampColumn = "''updated_at''" and oldFields = "[]"
        and build = ex_build and fieldWithHooks = ex_fieldWithHooks
        and oldResolve = ex_oldResolve
        and params = "ex_params ex_by_id (ex_client 100 [Some 200])"]
      t
    by simp
qed

subsection \<open>C8: a table without the version column\<close>

text \<open>
  Claim C8.  For a table with no attribute named as the configured version column, both
  hooks do nothing: the input-type hook of the table returns the fields it was given,
  and the resolver of a field of the table invokes the wrapped resolver on the call's
  parameters and issues no verification query.
\<close>

theorem missing_column_no_ops:
  assumes "find (\<lambda>a. a_name a = timestampColumn) (attributes table) = None"
  shows "(pgIntrospection scope = Some table
            \<longrightarrow> AddTimestampFieldPlugin timestampColumn oldFields build fieldWithHooks scope
                  = Inr oldFields)
       \<and> (pgFieldIntrospection scope = Some table
            \<longrightarrow> resolveMutation timestampColumn scope build oldResolve params
                  = Inr ([ResolverInvoked params], oldResolve params))"
  by (simp add: hook_missing_column [OF assms] resolver_missing_column [OF assms])

text \<open>The plugin configured for a column \<^verbatim>\<open>modified\<close>, which the person table lacks.\<close>

theorem missing_column_no_ops_witness:
  "AddTimestampFieldPlugin ''modified'' [] ex_build ex_fieldWithHooks
     (ex_input_scope (Some ex_person) False True) = Inr []
   \<and> resolveMutation ''modified'' ex_scope ex_build ex_oldResolve
       (ex_params ex_by_id (ex_client 100 [Some 200]))
     = Inr ([ResolverInvoked (ex_params ex_by_id (ex_client 100 [Some 200]))], Inr (JNum 1))"
proof -
  have none: "find (\<lambda>a. a_name a = ''modified'') (attributes ex_person) = None"
    by (simp add: ex_person_def ex_id_def ex_updated_at_def)
  have t: "pgIntrospection (ex_input_scope (Some ex_person) False True) = Some ex_person"
    "pgFieldIntrospection ex_scope = Some ex_person"
    by (simp_all add: ex_input_scope_def ex_scope_def)
  show ?thesis
    using missing_column_no_ops [OF none,
        where scope = "ex_input_scope (Some ex_person) False True" and oldFields = "[]"
        and build = ex_build and fieldWithHooks = ex_fieldWithHooks
        and oldResolve = ex_oldResolve
        and params = "ex_params ex_by_id (ex_client 100 [Some 200])"]
      missing_column_no_ops [OF none, where scope = ex_scope and oldFields = "[]"
        and build = ex_build and fieldWithHooks = ex_fieldWithHooks
        and oldResolve = ex_oldResolve
        and params = "ex_params ex_by_id (ex_client 100 [Some 200])"]
      t
    by simp
qed

subsection \<open>C9: the added field, and the other input types\<close>

text \<open>
  Claim C9 ends: fragments of any other classification are returned unchanged.  The hook
  runs for every input object type of the schema and reads
  \<^verbatim>\<open>scope.pgIntrospection.attributes\<close> before it looks at the classification.  For an
  input type that is neither an update nor a delete input type and whose scope has no
  \<^verbatim>\<open>pgIntrospection\<close>, the hook raises a type error instead of returning the fields.
  (Lemmas \<open>timestamp_field_added\<close> and \<open>fields_unchanged_otherwise\<close> hold the rest of the
  claim, for the scopes that have a table.)
\<close>

theorem other_input_type_raises:
  "pgIntrospection (ex_input_scope None False False) = None
   \<and> \<not> isPgUpdateInputType (ex_input_scope None False False)
   \<and> \<not> isPgDeleteInputType (ex_input_scope None False False)
   \<and> AddTimestampFieldPlugin ''updated_at''
         [(''seconds'', \<lparr>field_type = NamedType ''Float'', description = ''Seconds''\<rparr>)]
         ex_build ex_fieldWithHooks (ex_input_scope None False False)
       = Inl (TypeError ''attributes'')"
  by (simp add: AddTimestampFieldPlugin_def ex_input_scope_def)

subsection \<open>C10: node mode on a table without a primary key\<close>




end
